theory Spec2Isabelle
  imports Complex_Main "HOL-Library.Char_ord" "HOL-Library.Sublist" "HOL-Library.Log_Nat"
begin

section \<open>The storefront component: data model\<close>

text \<open>
  The component of \<^verbatim>\<open>src/react.jsx\<close> keeps a product catalog fetched once, a derived
  filtered and sorted list, and a shopping cart. A product is the JSON object the
  catalog endpoint returns; the code reads its fields \<^verbatim>\<open>id\<close>, \<^verbatim>\<open>title\<close>,
  \<^verbatim>\<open>price\<close>, \<^verbatim>\<open>category\<close> and \<^verbatim>\<open>rating.count\<close> (the stock count). The field
  \<^verbatim>\<open>id\<close> is written \<open>id'\<close>, since \<open>id\<close> is the identity function of HOL.

  Prices are finite JavaScript numbers. The code only subtracts two prices and looks at
  the sign of the difference, and for finite doubles that sign is the sign of the exact
  difference, so prices are rationals here. Quantities and stock counts are integers;
  the one addition the code makes on them is the addition of doubles, modelled below.
\<close>

record rating =
  rate :: rat
  count :: int

record product =
  id' :: nat
  title :: string
  price :: rat
  category :: string
  rating :: rating

text \<open>
  A cart line is \<^verbatim>\<open>{ ...product, quantity: 1 }\<close>: all fields of the product and one
  more, which is a record extension.
\<close>

record cart_line = product +
  quantity :: int

text \<open>The state hooks of \<^verbatim>\<open>App\<close>.\<close>

record app_state =
  products :: "product list"
  filteredProducts :: "product list"
  cart :: "cart_line list"
  searchTerm :: string
  selectedCategory :: string
  sortOrder :: string
  loading :: bool

text \<open>
  The only exception the cart code can raise: reading a property of
  \<^verbatim>\<open>undefined\<close>. A value that may be \<^verbatim>\<open>undefined\<close> is an option, and
  \<open>get_prop v f\<close> is the property read \<^verbatim>\<open>v.f\<close>.
\<close>

datatype js_error = TypeError

definition get_prop :: "'a option \<Rightarrow> ('a \<Rightarrow> 'b) \<Rightarrow> js_error + 'b" where
  "get_prop v f = (case v of None \<Rightarrow> Inl TypeError | Some x \<Rightarrow> Inr (f x))"

section \<open>Library functions of the language\<close>

subsection \<open>Numbers\<close>

text \<open>
  A JavaScript number is a double: 53 bits of significand. An integer below \<open>2 ^ 53\<close>
  in magnitude is a double; a larger one is a double when it is a multiple of the power
  of two \<open>ulp\<close> that separates the doubles of its magnitude. \<open>to_double\<close> rounds an
  integer to the nearest double, and a tie to the one with the even significand, which
  is what \<^verbatim>\<open>+\<close> does with the exact sum. (Sums of magnitude \<open>2 ^ 1024\<close> and more, which
  are \<^verbatim>\<open>Infinity\<close> in the language, are not doubles in \<open>is_double\<close>; adding 1 to
  a double never reaches them.)
\<close>

definition ulp :: "int \<Rightarrow> int" where
  "ulp n = 2 ^ (nat (bitlen \<bar>n\<bar>) - 53)"

definition to_double :: "int \<Rightarrow> int" where
  "to_double n =
     (let u = ulp n; q = n div u; r = n mod u
      in if 2 * r < u then q * u
         else if u < 2 * r then (q + 1) * u
         else if even q then q * u else (q + 1) * u)"

definition js_add :: "int \<Rightarrow> int \<Rightarrow> int" where
  "js_add a b = to_double (a + b)"

definition is_double :: "int \<Rightarrow> bool" where
  "is_double n \<longleftrightarrow> to_double n = n \<and> \<bar>n\<bar> < 2 ^ 1024"

subsection \<open>Strings, arrays, sets\<close>

text \<open>
  A string is the sequence of its characters. The code does four things with a string:
  it tests it for emptiness, compares it with \<^verbatim>\<open>===\<close>, lower-cases it and looks
  for it inside another one; none of them depends on how a character is encoded.
  \<^verbatim>\<open>String.prototype.includes\<close> holds when the argument occurs as a contiguous
  substring (the empty string occurs everywhere). \<^verbatim>\<open>String.prototype.toLowerCase\<close>
  maps every cased character by the case tables of Unicode, which are no part of the
  repository: the filter engine below takes the function as its parameter
  \<open>toLowerCase\<close>. The function \<open>asciiLower\<close> is what \<^verbatim>\<open>toLowerCase\<close> does on
  strings of ASCII characters, and is only used to run the engine on such strings.
\<close>

definition includes_str :: "string \<Rightarrow> string \<Rightarrow> bool" where
  "includes_str s t = sublist t s"

definition asciiLower :: "string \<Rightarrow> string" where
  "asciiLower s =
     map (\<lambda>c. if CHR ''A'' \<le> c \<and> c \<le> CHR ''Z'' then char_of (of_char c + (32::nat)) else c) s"

text \<open>
  \<^verbatim>\<open>Array.prototype.sort(cmp)\<close>: the language requires the sort to be stable, and
  \<open>cmp a b\<close> negative puts \<open>a\<close> first. It is modelled as an insertion sort that
  inserts the elements from the last to the first, each one in front of the first element
  it does not have to follow; an element therefore stays in front of the later elements
  that compare equal to it.
\<close>

fun insert_cmp :: "('a \<Rightarrow> 'a \<Rightarrow> rat) \<Rightarrow> 'a \<Rightarrow> 'a list \<Rightarrow> 'a list" where
  "insert_cmp cmp x [] = [x]"
| "insert_cmp cmp x (y # ys) =
     (if cmp x y \<le> 0 then x # y # ys else y # insert_cmp cmp x ys)"

definition sort_cmp :: "('a \<Rightarrow> 'a \<Rightarrow> rat) \<Rightarrow> 'a list \<Rightarrow> 'a list" where
  "sort_cmp cmp xs = foldr (insert_cmp cmp) xs []"

text \<open>
  \<^verbatim>\<open>[...new Set(xs)]\<close>: the elements of \<open>xs\<close> are added one by one to a set that
  remembers insertion order, and an element already present is not added again.
\<close>

definition set_add :: "'a list \<Rightarrow> 'a \<Rightarrow> 'a list" where
  "set_add acc x = (if x \<in> set acc then acc else acc @ [x])"

definition new_Set :: "'a list \<Rightarrow> 'a list" where
  "new_Set xs = foldl set_add [] xs"

section \<open>The filter engine\<close>

text \<open>
  \<open>computeView\<close> is the array \<^verbatim>\<open>applyFilters\<close> hands to
  \<^verbatim>\<open>setFilteredProducts\<close>, as a function of the four state variables the function
  reads. A JavaScript string is truthy when it is not empty.
\<close>

definition computeView ::
  "(string \<Rightarrow> string) \<Rightarrow> product list \<Rightarrow> string \<Rightarrow> string \<Rightarrow> string \<Rightarrow> product list" where
  "computeView toLowerCase ps search cat ord =
     (let filtered = ps;
          filtered = (if search \<noteq> []
                      then filter (\<lambda>product.
                             includes_str (toLowerCase (title product)) (toLowerCase search))
                             filtered
                      else filtered);
          filtered = (if cat \<noteq> []
                      then filter (\<lambda>product. category product = cat) filtered
                      else filtered)
      in if ord = ''low-high'' then sort_cmp (\<lambda>a b. price a - price b) filtered
         else if ord = ''high-low'' then sort_cmp (\<lambda>a b. price b - price a) filtered
         else filtered)"

definition applyFilters :: "(string \<Rightarrow> string) \<Rightarrow> app_state \<Rightarrow> app_state" where
  "applyFilters toLowerCase s =
     s\<lparr>filteredProducts :=
         computeView toLowerCase (products s) (searchTerm s) (selectedCategory s)
           (sortOrder s)\<rparr>"

definition clearFilters :: "app_state \<Rightarrow> app_state" where
  "clearFilters s = s\<lparr>searchTerm := [], selectedCategory := [], sortOrder := []\<rparr>"

definition getCategories :: "app_state \<Rightarrow> string list" where
  "getCategories s = new_Set (map category (products s))"

subsection \<open>The same function over a store of arrays\<close>

text \<open>
  \<^verbatim>\<open>applyFilters\<close> sorts in place. Whether that touches the catalog depends on which
  array the variable \<^verbatim>\<open>filtered\<close> refers to, so the function is modelled a second
  time over an explicit store: a list of arrays, a reference being an index into it.
  The spread \<^verbatim>\<open>[...a]\<close> and \<^verbatim>\<open>a.filter(f)\<close> allocate a new array and return its
  reference; \<^verbatim>\<open>a.sort(cmp)\<close> overwrites the array \<open>a\<close> refers to.
\<close>

type_synonym ref = nat
type_synonym store = "product list list"

definition array_spread :: "store \<Rightarrow> ref \<Rightarrow> store \<times> ref" where
  "array_spread st a = (st @ [st ! a], length st)"

definition array_filter :: "(product \<Rightarrow> bool) \<Rightarrow> store \<Rightarrow> ref \<Rightarrow> store \<times> ref" where
  "array_filter f st a = (st @ [filter f (st ! a)], length st)"

definition array_sort :: "(product \<Rightarrow> product \<Rightarrow> rat) \<Rightarrow> store \<Rightarrow> ref \<Rightarrow> store" where
  "array_sort cmp st a = st[a := sort_cmp cmp (st ! a)]"

definition applyFilters_store ::
  "(string \<Rightarrow> string) \<Rightarrow> store \<Rightarrow> ref \<Rightarrow> string \<Rightarrow> string \<Rightarrow> string \<Rightarrow> store \<times> ref" where
  "applyFilters_store toLowerCase st ps search cat ord =
     (let (st, filtered) = array_spread st ps;
          (st, filtered) = (if search \<noteq> []
                            then array_filter (\<lambda>product.
                                   includes_str (toLowerCase (title product))
                                     (toLowerCase search))
                                   st filtered
                            else (st, filtered));
          (st, filtered) = (if cat \<noteq> []
                            then array_filter (\<lambda>product. category product = cat) st filtered
                            else (st, filtered));
          st = (if ord = ''low-high'' then array_sort (\<lambda>a b. price a - price b) st filtered
                else if ord = ''high-low''
                then array_sort (\<lambda>a b. price b - price a) st filtered
                else st)
      in (st, filtered))"

section \<open>The cart manager\<close>

text \<open>
  \<^verbatim>\<open>cart.find\<close> gives the first line with the product's id, or \<^verbatim>\<open>undefined\<close>
  (here \<open>None\<close>); \<^verbatim>\<open>if (existingItem)\<close> tests that the line is there, and
  \<^verbatim>\<open>existingItem.quantity\<close> is read inside that test. The stock count
  \<^verbatim>\<open>addToCart\<close> compares with is the one of its argument, and the new quantity is
  the sum of doubles \<^verbatim>\<open>item.quantity + 1\<close>.
\<close>

definition addToCart :: "app_state \<Rightarrow> product \<Rightarrow> js_error + app_state" where
  "addToCart s product =
     (let existingItem = find (\<lambda>item. id' item = id' product) (cart s)
      in if existingItem \<noteq> None
         then (case get_prop existingItem quantity of
                 Inl e \<Rightarrow> Inl e
               | Inr existingQuantity \<Rightarrow>
                   if existingQuantity < count (rating product)
                   then Inr (s\<lparr>cart := map (\<lambda>item. if id' item = id' product
                                       then item\<lparr>quantity := js_add (quantity item) 1\<rparr>
                                       else item) (cart s)\<rparr>)
                   else Inr s)
         else Inr (s\<lparr>cart := cart s @ [product.extend product (cart_line.fields 1)]\<rparr>))"

definition removeFromCart :: "app_state \<Rightarrow> nat \<Rightarrow> app_state" where
  "removeFromCart s productId = s\<lparr>cart := filter (\<lambda>item. id' item \<noteq> productId) (cart s)\<rparr>"

text \<open>
  \<^verbatim>\<open>updateQuantity\<close> looks the product up in the catalog and reads
  \<^verbatim>\<open>product.rating.count\<close> before anything else; when no product has the id,
  \<^verbatim>\<open>product\<close> is \<^verbatim>\<open>undefined\<close> and the read raises a \<^verbatim>\<open>TypeError\<close>.
\<close>

definition updateQuantity :: "app_state \<Rightarrow> nat \<Rightarrow> int \<Rightarrow> js_error + app_state" where
  "updateQuantity s productId newQuantity =
     (case find (\<lambda>p. id' p = productId) (products s) of
        None \<Rightarrow> Inl TypeError
      | Some product \<Rightarrow>
          (let maxStock = count (rating product)
           in if newQuantity \<le> 0 then Inr (removeFromCart s productId)
              else if newQuantity \<le> maxStock
              then Inr (s\<lparr>cart := map (\<lambda>item. if id' item = productId
                                                 then item\<lparr>quantity := newQuantity\<rparr>
                                                 else item) (cart s)\<rparr>)
              else Inr s))"

definition isOutOfStock :: "product \<Rightarrow> bool" where
  "isOutOfStock product = (count (rating product) = 0)"

subsection \<open>Sequences of cart calls\<close>

text \<open>
  A session is a list of calls of the three cart operations, each made by an event
  handler of the page. \<open>step\<close> is the call: the new state, or the exception that
  escapes. \<open>handle\<close> is the handler seen from the session: the component's state is
  only changed by \<^verbatim>\<open>setCart\<close>, which every operation calls as the last thing it
  does, so an exception escapes before any change and leaves the state the handler
  started from; the exception ends that handler alone, and the next call is made on the
  state that is left. \<open>run\<close> is the state after all calls of the list.
\<close>

datatype action =
  AddToCart product
| RemoveFromCart nat
| UpdateQuantity nat int

fun step :: "app_state \<Rightarrow> action \<Rightarrow> js_error + app_state" where
  "step s (AddToCart product) = addToCart s product"
| "step s (RemoveFromCart productId) = Inr (removeFromCart s productId)"
| "step s (UpdateQuantity productId newQuantity) = updateQuantity s productId newQuantity"

definition handle :: "app_state \<Rightarrow> action \<Rightarrow> js_error option \<times> app_state" where
  "handle s a = (case step s a of Inl e \<Rightarrow> (Some e, s) | Inr s' \<Rightarrow> (None, s'))"

fun run :: "app_state \<Rightarrow> action list \<Rightarrow> app_state" where
  "run s [] = s"
| "run s (a # as) = run (snd (handle s a)) as"

text \<open>The state of a session whose catalog has been loaded and whose cart is empty.\<close>

definition init :: "product list \<Rightarrow> app_state" where
  "init catalog =
     \<lparr>products = catalog, filteredProducts = catalog, cart = [], searchTerm = [],
      selectedCategory = [], sortOrder = [], loading = False\<rparr>"

text \<open>
  The stock ceiling: every line is the copy of a catalog product, and its quantity is
  between 1 and the stock count of that product.
\<close>

definition cart_ok :: "product list \<Rightarrow> cart_line list \<Rightarrow> bool" where
  "cart_ok catalog c =
     (\<forall>l \<in> set c. product.truncate l \<in> set catalog \<and>
                   1 \<le> quantity l \<and> quantity l \<le> count (rating l))"

text \<open>
  The stock ceiling together with the uniqueness of the keys of the cart: the invariant
  the cart operations preserve.
\<close>

definition cart_inv :: "product list \<Rightarrow> cart_line list \<Rightarrow> bool" where
  "cart_inv catalog c \<longleftrightarrow> cart_ok catalog c \<and> distinct (map id' c)"

text \<open>
  A catalog as the data model has it: the ids are unique, and every stock count is an
  integer that is not negative and that a JavaScript number holds.
\<close>

definition catalog_ok :: "product list \<Rightarrow> bool" where
  "catalog_ok catalog \<longleftrightarrow>
     distinct (map id' catalog) \<and>
     (\<forall>p \<in> set catalog. 0 \<le> count (rating p) \<and> is_double (count (rating p)))"

text \<open>
  The calls the page can make. The button that calls \<^verbatim>\<open>addToCart(product)\<close> is
  rendered for a product of the catalog and carries
  \<^verbatim>\<open>disabled={isOutOfStock(product)}\<close>, so the call is only made for a product that
  is in stock.
\<close>

fun addable :: "product list \<Rightarrow> action \<Rightarrow> bool" where
  "addable catalog (AddToCart product) = (product \<in> set catalog \<and> \<not> isOutOfStock product)"
| "addable catalog (RemoveFromCart productId) = True"
| "addable catalog (UpdateQuantity productId newQuantity) = True"

text \<open>
  The value of the variable \<^verbatim>\<open>filtered\<close> of \<^verbatim>\<open>applyFilters\<close> when the two filters
  have run and the sort has not: the list the sort starts from.
\<close>

definition postFilter ::
  "(string \<Rightarrow> string) \<Rightarrow> product list \<Rightarrow> string \<Rightarrow> string \<Rightarrow> product list" where
  "postFilter toLowerCase ps search cat =
     (let filtered = ps;
          filtered = (if search \<noteq> []
                      then filter (\<lambda>product.
                             includes_str (toLowerCase (title product)) (toLowerCase search))
                             filtered
                      else filtered);
          filtered = (if cat \<noteq> []
                      then filter (\<lambda>product. category product = cat) filtered
                      else filtered)
      in filtered)"

subsection \<open>Concrete products\<close>

text \<open>
  The product of the scenario of the specification, one that is sold out, a third, and
  one whose stock count is beyond the integers that doubles count one by one.
\<close>

definition redShirt :: product where
  "redShirt = \<lparr>id' = 1, title = ''Red Shirt'', price = 20, category = ''clothing'',
                rating = \<lparr>rate = 4, count = 2\<rparr>\<rparr>"

definition soldOut :: product where
  "soldOut = \<lparr>id' = 2, title = ''Blue Shoe'', price = 35, category = ''shoes'',
               rating = \<lparr>rate = 3, count = 0\<rparr>\<rparr>"

definition greenHat :: product where
  "greenHat = \<lparr>id' = 3, title = ''Green Hat'', price = 20, category = ''clothing'',
                rating = \<lparr>rate = 5, count = 7\<rparr>\<rparr>"

definition sand :: product where
  "sand = \<lparr>id' = 4, title = ''Sand'', price = 1, category = ''garden'',
            rating = \<lparr>rate = 2, count = 2 ^ 53 + 2\<rparr>\<rparr>"

section \<open>Properties of the filter engine\<close>

subsection \<open>The sort\<close>

text \<open>
  With a comparator that subtracts a key, the insertion of \<open>sort_cmp\<close> is the
  insertion by key of the list library, so that the library's facts on \<open>sort_key\<close>
  apply to both sort orders of the page.
\<close>

lemma insert_cmp_key: "insert_cmp (\<lambda>a b. f a - f b) x ys = insort_key f x ys"
  by (induction ys) auto

lemma sort_cmp_key: "sort_cmp (\<lambda>a b. f a - f b) xs = sort_key f xs"
  by (induction xs) (simp_all add: sort_cmp_def insert_cmp_key)

lemma sort_cmp_desc: "sort_cmp (\<lambda>a b. price b - price a) xs = sort_key (\<lambda>p. - price p) xs"
  using sort_cmp_key [of "\<lambda>p. - price p" xs] by simp

lemma asc_sorted: "sorted_wrt (\<lambda>a b. price a \<le> price b) (sort_key price xs)"
  using sorted_sort_key [of price xs] by (simp add: sorted_map)

lemma desc_sorted: "sorted_wrt (\<lambda>a b. price b \<le> price a) (sort_key (\<lambda>p. - price p) xs)"
  using sorted_sort_key [of "\<lambda>p. - price p" xs] by (simp add: sorted_map)

lemma desc_stable:
  "filter (\<lambda>p. price p = k) (sort_key (\<lambda>p. - price p) xs) = filter (\<lambda>p. price p = k) xs"
  using sort_key_stable [of "\<lambda>p. - price p" "- k" xs] by simp

lemma computeView_postFilter:
  "computeView toLowerCase ps search cat ord =
     (if ord = ''low-high'' then sort_key price (postFilter toLowerCase ps search cat)
      else if ord = ''high-low''
      then sort_key (\<lambda>p. - price p) (postFilter toLowerCase ps search cat)
      else postFilter toLowerCase ps search cat)"
  by (simp add: computeView_def postFilter_def Let_def sort_cmp_key sort_cmp_desc)

lemma set_postFilter:
  "set (postFilter toLowerCase ps search cat) =
     {p \<in> set ps.
        (search = [] \<or> includes_str (toLowerCase (title p)) (toLowerCase search)) \<and>
        (cat = [] \<or> category p = cat)}"
  by (auto simp: postFilter_def Let_def)

lemma set_computeView:
  "set (computeView toLowerCase ps search cat ord) = set (postFilter toLowerCase ps search cat)"
  by (simp add: computeView_postFilter)

subsection \<open>Membership, order, identity\<close>

text \<open>
  C5. Whatever function \<^verbatim>\<open>toLowerCase\<close> is, a product is in the view exactly when it
  is in the catalog, the search term is empty or, lower-cased, occurs in the product's
  lower-cased title, and the selected category is empty or is the product's category,
  character by character. The two criteria are conjoined, and the sort order has no
  part in membership.
\<close>

theorem filter_membership:
  "p \<in> set (computeView toLowerCase ps search cat ord) \<longleftrightarrow>
     p \<in> set ps \<and>
     (search = [] \<or> includes_str (toLowerCase (title p)) (toLowerCase search)) \<and>
     (cat = [] \<or> category p = cat)"
  by (simp add: set_computeView set_postFilter)

text \<open>
  C6. With the sort order \<^verbatim>\<open>low-high\<close> the view is non-decreasing by price, with
  \<^verbatim>\<open>high-low\<close> non-increasing, and in both the sort is stable: for each price, the
  products of that price come in the order they had in the filtered list. With no sort
  order the view is the filtered list.
\<close>

theorem sort_order_stable:
  "sorted_wrt (\<lambda>a b. price a \<le> price b) (computeView toLowerCase ps search cat ''low-high'') \<and>
   (\<forall>k. filter (\<lambda>p. price p = k) (computeView toLowerCase ps search cat ''low-high'') =
        filter (\<lambda>p. price p = k) (postFilter toLowerCase ps search cat)) \<and>
   sorted_wrt (\<lambda>a b. price b \<le> price a) (computeView toLowerCase ps search cat ''high-low'') \<and>
   (\<forall>k. filter (\<lambda>p. price p = k) (computeView toLowerCase ps search cat ''high-low'') =
        filter (\<lambda>p. price p = k) (postFilter toLowerCase ps search cat)) \<and>
   computeView toLowerCase ps search cat [] = postFilter toLowerCase ps search cat"
  by (simp add: computeView_postFilter asc_sorted desc_sorted desc_stable sort_key_stable)

text \<open>
  C7. With an empty search term, no category and no sort order the view is the catalog,
  element by element; in particular \<^verbatim>\<open>applyFilters\<close> after \<^verbatim>\<open>clearFilters\<close>
  shows the whole catalog.
\<close>

theorem filter_identity:
  "computeView toLowerCase ps [] [] [] = ps \<and>
   filteredProducts (applyFilters toLowerCase (clearFilters s)) = products s"
  by (simp add: computeView_def applyFilters_def clearFilters_def)

subsection \<open>Categories\<close>

lemma set_set_add: "set (set_add acc x) = insert x (set acc)"
  by (auto simp: set_add_def)

lemma set_foldl_set_add: "set (foldl set_add acc xs) = set acc \<union> set xs"
  by (induction xs arbitrary: acc) (auto simp: set_set_add)

lemma distinct_foldl_set_add: "distinct acc \<Longrightarrow> distinct (foldl set_add acc xs)"
  by (induction xs arbitrary: acc) (auto simp: set_add_def)

text \<open>
  C8. The categories offered by the selector are the categories that occur in the
  catalog, each once, and they do not depend on the three criteria: neither changing the
  criteria nor recomputing the view changes them.
\<close>

theorem categories_enumeration:
  "set (getCategories s) = category ` set (products s) \<and>
   distinct (getCategories s) \<and>
   getCategories (s\<lparr>searchTerm := search, selectedCategory := cat, sortOrder := ord\<rparr>) =
     getCategories s \<and>
   getCategories (applyFilters toLowerCase s) = getCategories s"
  by (simp add: getCategories_def new_Set_def set_foldl_set_add distinct_foldl_set_add
        applyFilters_def)

subsection \<open>The catalog is not overwritten\<close>

text \<open>
  C9. Over the store of arrays, \<^verbatim>\<open>applyFilters\<close> leaves every array that existed
  before the call as it was, the catalog among them, for every search term, category and
  sort order; the array it returns is a new one, and it holds the view.
\<close>

theorem applyFilters_frame:
  "ps < length st \<Longrightarrow>
     (case applyFilters_store toLowerCase st ps search cat ord of
        (st', filtered) \<Rightarrow>
          take (length st) st' = st \<and> st' ! ps = st ! ps \<and> filtered \<noteq> ps \<and>
          filtered < length st' \<and>
          st' ! filtered = computeView toLowerCase (st ! ps) search cat ord)"
  by (auto simp: applyFilters_store_def computeView_def array_spread_def array_filter_def
        array_sort_def Let_def nth_append)

theorem applyFilters_frame_witness:
  "applyFilters_store asciiLower [[greenHat, soldOut, redShirt]] 0 ''SH'' [] ''high-low'' =
     ([[greenHat, soldOut, redShirt], [greenHat, soldOut, redShirt], [soldOut, redShirt]], 2) \<and>
   computeView asciiLower [greenHat, soldOut, redShirt] ''SH'' [] ''high-low'' =
     [soldOut, redShirt]"
proof -
  have r: "applyFilters_store asciiLower [[greenHat, soldOut, redShirt]] 0 ''SH'' []
       ''high-low'' =
     ([[greenHat, soldOut, redShirt], [greenHat, soldOut, redShirt], [soldOut, redShirt]], 2)"
    by code_simp
  have "(0::nat) < length [[greenHat, soldOut, redShirt]]" by simp
  from applyFilters_frame [OF this, of asciiLower "''SH''" "[]" "''high-low''"] r
  show ?thesis by simp
qed

section \<open>Properties of the numbers\<close>

lemma ulp_pos: "0 < ulp n"
  by (simp add: ulp_def)

lemma ulp_dvd_to_double: "ulp n dvd to_double n"
  by (simp add: to_double_def Let_def)

lemma ulp_mono: "0 \<le> n \<Longrightarrow> n \<le> c \<Longrightarrow> ulp n dvd ulp c"
proof -
  assume a: "0 \<le> n" "n \<le> c"
  have "bitlen \<bar>n\<bar> \<le> bitlen \<bar>c\<bar>"
    using a by (simp add: bitlen_def floorlog_mono)
  then have "nat (bitlen \<bar>n\<bar>) - 53 \<le> nat (bitlen \<bar>c\<bar>) - 53" by linarith
  then show ?thesis unfolding ulp_def by (rule le_imp_power_dvd)
qed

lemma ulp_le: "1 \<le> n \<Longrightarrow> ulp n \<le> n"
proof -
  assume a: "1 \<le> n"
  then have b: "2 ^ nat (bitlen n - 1) \<le> n" using bitlen_bounds [of n] by simp
  have "nat (bitlen n) - 53 \<le> nat (bitlen n - 1)" by linarith
  then have "(2::int) ^ (nat (bitlen n) - 53) \<le> 2 ^ nat (bitlen n - 1)"
    by (simp add: power_increasing)
  then have "(2::int) ^ (nat (bitlen n) - 53) \<le> n" using b by (rule order_trans)
  moreover have "\<bar>n\<bar> = n" using a by simp
  ultimately show ?thesis by (simp only: ulp_def)
qed

lemma div_ulp_le: "n div ulp n * ulp n \<le> n"
  using ulp_pos [of n] by (metis div_mult_mod_eq pos_mod_sign le_add_same_cancel1)

lemma to_double_bounds:
  "n div ulp n * ulp n \<le> to_double n \<and> to_double n \<le> (n div ulp n + 1) * ulp n"
  using ulp_pos [of n] by (auto simp: to_double_def Let_def algebra_simps)

lemma to_double_exact: "ulp n dvd n \<Longrightarrow> to_double n = n"
  using ulp_pos [of n] by (auto simp: to_double_def Let_def)

lemma to_double_pow53: "to_double (2 ^ 53) = 2 ^ 53" "to_double (- (2 ^ 53)) = - (2 ^ 53)"
  by code_simp+

text \<open>Up to \<open>2 ^ 53\<close> in magnitude every integer is a double, and sums are exact.\<close>

lemma to_double_small: "\<bar>n\<bar> \<le> 2 ^ 53 \<Longrightarrow> to_double n = n"
proof (cases "\<bar>n\<bar> = 2 ^ 53")
  case True
  then have "n = 2 ^ 53 \<or> n = - (2 ^ 53)" by linarith
  then show ?thesis using to_double_pow53 by auto
next
  case False
  assume "\<bar>n\<bar> \<le> 2 ^ 53"
  then have "\<bar>n\<bar> < 2 ^ 53" using False by simp
  then have "bitlen \<bar>n\<bar> \<le> 53" by (simp add: bitlen_le_iff_power)
  then have "ulp n = 1" by (simp add: ulp_def)
  then show ?thesis by (simp add: to_double_exact)
qed

lemma js_add_exact: "\<bar>q\<bar> < 2 ^ 53 \<Longrightarrow> js_add q 1 = q + 1"
  by (simp add: js_add_def to_double_small)

text \<open>Rounding an integer that is not negative does not pass a double above it.\<close>

lemma to_double_le:
  assumes "0 \<le> n" "n \<le> c" "to_double c = c"
  shows "to_double n \<le> c"
proof -
  have "ulp c dvd c" using ulp_dvd_to_double [of c] assms(3) by simp
  then have d: "ulp n dvd c" using ulp_mono [OF assms(1,2)] by (rule dvd_trans [rotated])
  show ?thesis
  proof (cases "ulp n dvd n")
    case True
    then show ?thesis using assms(2) by (simp add: to_double_exact)
  next
    case False
    obtain k where k: "c = k * ulp n" using d by (auto simp: dvd_def mult.commute)
    have "n \<noteq> c" using False d by auto
    then have "n < k * ulp n" using assms(2) k by simp
    have "\<not> k \<le> n div ulp n"
    proof
      assume "k \<le> n div ulp n"
      then have "k * ulp n \<le> n div ulp n * ulp n"
        using ulp_pos [of n] by (simp add: mult_right_mono)
      then show False using div_ulp_le [of n] \<open>n < k * ulp n\<close> by linarith
    qed
    then have "n div ulp n + 1 \<le> k" by simp
    then have "(n div ulp n + 1) * ulp n \<le> k * ulp n"
      using ulp_pos [of n] by (simp only: mult_right_mono less_imp_le)
    then show ?thesis using to_double_bounds [of n] k by simp
  qed
qed

lemma to_double_ge: "1 \<le> n \<Longrightarrow> 1 \<le> to_double n"
proof -
  assume a: "1 \<le> n"
  have "1 \<le> n div ulp n" using ulp_le [OF a] ulp_pos [of n]
    by (simp add: pos_imp_zdiv_pos_iff int_one_le_iff_zero_less)
  then have "1 * ulp n \<le> n div ulp n * ulp n" using ulp_pos [of n]
    by (simp only: mult_right_mono less_imp_le)
  then show ?thesis using to_double_bounds [of n] ulp_pos [of n] by linarith
qed

text \<open>
  The increment of \<^verbatim>\<open>addToCart\<close> keeps a quantity between 1 and a stock count that
  is a double.
\<close>

lemma js_add_ceiling:
  assumes "1 \<le> q" "q < c" "is_double c"
  shows "1 \<le> js_add q 1 \<and> js_add q 1 \<le> c"
  using assms to_double_ge [of "q + 1"] to_double_le [of "q + 1" c]
  by (simp add: js_add_def is_double_def)

section \<open>Properties of the cart manager\<close>

subsection \<open>Lookups and record fields\<close>

lemma find_None_ids: "find (\<lambda>item. id' item = k) c = None \<longleftrightarrow> k \<notin> id' ` set c"
  by (auto simp: find_None_iff)

lemma find_Some_mem: "find P xs = Some x \<Longrightarrow> x \<in> set xs \<and> P x"
  by (auto simp: find_Some_iff)

lemma id_update:
  "id' \<circ> (\<lambda>item. if P item then item\<lparr>quantity := f item\<rparr> else item) = id'"
  by (auto simp: fun_eq_iff)

lemma new_line:
  "product.truncate (product.extend p (cart_line.fields q)) = p"
  "quantity (product.extend p (cart_line.fields q)) = q"
  "id' (product.extend p m) = id' p"
  "rating (product.extend p m) = rating p"
  by (simp_all add: product.defs cart_line.defs)

lemma new_line_update:
  "(product.extend p (cart_line.fields q))\<lparr>quantity := q'\<rparr> =
     product.extend p (cart_line.fields q')"
  by (simp add: product.defs cart_line.defs)

lemma truncate_update: "product.truncate (l\<lparr>quantity := q\<rparr>) = product.truncate l"
  by (simp add: product.defs)

lemma truncate_id: "id' (product.truncate l) = id' l"
  by (simp add: product.defs)

lemma truncate_rating: "rating (product.truncate l) = rating l"
  by (simp add: product.defs)

lemma same_id_same_product:
  "distinct (map id' catalog) \<Longrightarrow> p \<in> set catalog \<Longrightarrow> q \<in> set catalog \<Longrightarrow>
     id' p = id' q \<Longrightarrow> p = q"
  by (meson distinct_map inj_onD)

lemma same_id_same_line:
  "distinct (map id' c) \<Longrightarrow> l \<in> set c \<Longrightarrow> i \<in> set c \<Longrightarrow> id' i = id' l \<Longrightarrow> i = l"
  by (meson distinct_map inj_onD)

text \<open>
  In a catalog with unique ids, a line that copies a catalog product has the stock count
  of the catalog product with its id.
\<close>

lemma line_stock:
  assumes "distinct (map id' catalog)" "p \<in> set catalog" "product.truncate l \<in> set catalog"
    "id' l = id' p"
  shows "rating l = rating p"
proof -
  have "product.truncate l = p"
    using assms same_id_same_product [of catalog "product.truncate l" p]
    by (simp add: truncate_id)
  then show ?thesis using truncate_rating [of l] by simp
qed

subsection \<open>The three paths of \<^verbatim>\<open>addToCart\<close>\<close>

lemma addToCart_new:
  "find (\<lambda>item. id' item = id' p) (cart s) = None \<Longrightarrow>
     addToCart s p = Inr (s\<lparr>cart := cart s @ [product.extend p (cart_line.fields 1)]\<rparr>)"
  by (simp add: addToCart_def)

lemma addToCart_inc:
  "find (\<lambda>item. id' item = id' p) (cart s) = Some l \<Longrightarrow> quantity l < count (rating p) \<Longrightarrow>
     addToCart s p =
       Inr (s\<lparr>cart := map (\<lambda>item. if id' item = id' p
                                   then item\<lparr>quantity := js_add (quantity item) 1\<rparr>
                                   else item) (cart s)\<rparr>)"
  by (simp add: addToCart_def get_prop_def)

lemma addToCart_full:
  "find (\<lambda>item. id' item = id' p) (cart s) = Some l \<Longrightarrow>
     \<not> quantity l < count (rating p) \<Longrightarrow> addToCart s p = Inr s"
  by (simp add: addToCart_def get_prop_def)

lemma addToCart_cases:
  obtains (new) "find (\<lambda>item. id' item = id' p) (cart s) = None"
      "addToCart s p = Inr (s\<lparr>cart := cart s @ [product.extend p (cart_line.fields 1)]\<rparr>)"
  | (inc) l where "find (\<lambda>item. id' item = id' p) (cart s) = Some l"
      "quantity l < count (rating p)"
      "addToCart s p =
         Inr (s\<lparr>cart := map (\<lambda>item. if id' item = id' p
                                     then item\<lparr>quantity := js_add (quantity item) 1\<rparr>
                                     else item) (cart s)\<rparr>)"
  | (full) l where "find (\<lambda>item. id' item = id' p) (cart s) = Some l"
      "\<not> quantity l < count (rating p)" "addToCart s p = Inr s"
proof (cases "find (\<lambda>item. id' item = id' p) (cart s)")
  case None
  then show ?thesis using addToCart_new [of p s] new by simp
next
  case (Some l)
  then show ?thesis
    using addToCart_inc [of p s l] addToCart_full [of p s l] inc [of l] full [of l]
    by (cases "quantity l < count (rating p)") simp_all
qed

lemma addToCart_returns: "\<exists>s'. addToCart s p = Inr s'"
  by (cases rule: addToCart_cases [of p s]) simp_all

subsection \<open>The catalog is not touched by the cart\<close>

lemma products_addToCart: "addToCart s p = Inr s' \<Longrightarrow> products s' = products s"
  by (cases rule: addToCart_cases [of p s]) auto

lemma products_removeFromCart: "products (removeFromCart s k) = products s"
  by (simp add: removeFromCart_def)

lemma products_updateQuantity: "updateQuantity s k n = Inr s' \<Longrightarrow> products s' = products s"
  by (auto simp: updateQuantity_def Let_def products_removeFromCart
        split: option.splits if_splits)

lemma products_step: "step s a = Inr s' \<Longrightarrow> products s' = products s"
  by (cases a) (auto simp: products_removeFromCart dest: products_addToCart
        products_updateQuantity)

lemma products_handle: "products (snd (handle s a)) = products s"
  by (cases "step s a") (auto simp: handle_def dest: products_step)

lemma products_run: "products (run s as) = products s"
  by (induction as arbitrary: s) (simp_all add: products_handle)

subsection \<open>One line per product id\<close>

lemma distinct_addToCart:
  "distinct (map id' (cart s)) \<Longrightarrow> addToCart s p = Inr s' \<Longrightarrow> distinct (map id' (cart s'))"
  by (cases rule: addToCart_cases [of p s]) (auto simp: id_update find_None_ids new_line)

lemma distinct_removeFromCart:
  "distinct (map id' (cart s)) \<Longrightarrow> distinct (map id' (cart (removeFromCart s k)))"
  by (simp add: removeFromCart_def distinct_map_filter)

lemma distinct_updateQuantity:
  "distinct (map id' (cart s)) \<Longrightarrow> updateQuantity s k n = Inr s' \<Longrightarrow>
     distinct (map id' (cart s'))"
  by (auto simp: updateQuantity_def Let_def id_update removeFromCart_def distinct_map_filter
        split: option.splits if_splits)

lemma distinct_step:
  "distinct (map id' (cart s)) \<Longrightarrow> step s a = Inr s' \<Longrightarrow> distinct (map id' (cart s'))"
proof (cases a)
  case (AddToCart p)
  assume "distinct (map id' (cart s))" "step s a = Inr s'"
  then show ?thesis using AddToCart distinct_addToCart [of s p s'] by simp
next
  case (RemoveFromCart k)
  assume "distinct (map id' (cart s))" "step s a = Inr s'"
  then show ?thesis using RemoveFromCart distinct_removeFromCart [of s k] by auto
next
  case (UpdateQuantity k n)
  assume "distinct (map id' (cart s))" "step s a = Inr s'"
  then show ?thesis using UpdateQuantity distinct_updateQuantity [of s k n s'] by simp
qed

lemma distinct_handle:
  "distinct (map id' (cart s)) \<Longrightarrow> distinct (map id' (cart (snd (handle s a))))"
  by (cases "step s a") (auto simp: handle_def dest: distinct_step)

lemma distinct_run:
  "distinct (map id' (cart s)) \<Longrightarrow> distinct (map id' (cart (run s as)))"
  by (induction as arbitrary: s) (simp_all add: distinct_handle)

lemma removeFromCart_removes: "k \<notin> id' ` set (cart (removeFromCart s k))"
  by (auto simp: removeFromCart_def)

lemma addToCart_merges:
  assumes "id' p \<in> id' ` set (cart s)"
  shows "\<exists>s'. addToCart s p = Inr s' \<and> map id' (cart s') = map id' (cart s)"
proof (cases rule: addToCart_cases [of p s])
  case new
  then show ?thesis using assms find_None_ids [of "id' p" "cart s"] by simp
next
  case (inc l)
  then show ?thesis by (simp add: id_update)
next
  case (full l)
  then show ?thesis by simp
qed

text \<open>
  C10. From the empty cart, whatever calls of \<^verbatim>\<open>addToCart\<close>, \<^verbatim>\<open>removeFromCart\<close>
  and \<^verbatim>\<open>updateQuantity\<close> are made, the ones that raise among them, and whatever the
  catalog and the products passed are, the ids of the lines of the cart are pairwise
  different. For \<^verbatim>\<open>addToCart\<close> of a product whose id a line already has, the cart
  keeps its list of ids, so no second line is appended; after \<^verbatim>\<open>removeFromCart\<close> no
  line has the id removed.
\<close>

theorem cart_keys_unique:
  "distinct (map id' (cart (run (init catalog) as))) \<and>
   (id' p \<in> id' ` set (cart s) \<longrightarrow>
      (\<exists>s'. addToCart s p = Inr s' \<and> map id' (cart s') = map id' (cart s))) \<and>
   k \<notin> id' ` set (cart (removeFromCart s k))"
  using distinct_run [of "init catalog" as] addToCart_merges [of p s]
    removeFromCart_removes [of k s]
  by (simp add: init_def)

theorem cart_keys_unique_witness:
  "run (init [redShirt, greenHat])
     [AddToCart redShirt, AddToCart greenHat, UpdateQuantity 9 1, AddToCart redShirt,
      RemoveFromCart 3, AddToCart greenHat, UpdateQuantity 3 4] =
     (init [redShirt, greenHat])
       \<lparr>cart := [product.extend redShirt (cart_line.fields 2),
                 product.extend greenHat (cart_line.fields 4)]\<rparr> \<and>
   distinct (map id' [product.extend redShirt (cart_line.fields 2),
                      product.extend greenHat (cart_line.fields 4)]) \<and>
   addToCart ((init [redShirt])\<lparr>cart := [product.extend redShirt (cart_line.fields 1)]\<rparr>)
       redShirt =
     Inr ((init [redShirt])\<lparr>cart := [product.extend redShirt (cart_line.fields 2)]\<rparr>)"
proof -
  let ?s = "(init [redShirt])\<lparr>cart := [product.extend redShirt (cart_line.fields 1)]\<rparr>"
  let ?as = "[AddToCart redShirt, AddToCart greenHat, UpdateQuantity 9 1, AddToCart redShirt,
      RemoveFromCart 3, AddToCart greenHat, UpdateQuantity 3 4]"
  have r: "run (init [redShirt, greenHat]) ?as =
     (init [redShirt, greenHat])
       \<lparr>cart := [product.extend redShirt (cart_line.fields 2),
                 product.extend greenHat (cart_line.fields 4)]\<rparr>"
    by code_simp
  have a: "addToCart ?s redShirt =
     Inr ((init [redShirt])\<lparr>cart := [product.extend redShirt (cart_line.fields 2)]\<rparr>)"
    by code_simp
  have m: "id' redShirt \<in> id' ` set (cart ?s)"
    by (simp add: new_line)
  note t = cart_keys_unique [of "[redShirt, greenHat]" ?as redShirt ?s 0]
  have d: "distinct (map id' (cart (run (init [redShirt, greenHat]) ?as)))"
    using t by blast
  have "\<exists>s'. addToCart ?s redShirt = Inr s' \<and> map id' (cart s') = map id' (cart ?s)"
    using t m by blast
  then show ?thesis using r d a by simp
qed

subsection \<open>The stock ceiling\<close>

lemma inv_addToCart:
  assumes d: "distinct (map id' catalog)" and p: "p \<in> set catalog"
    and st: "1 \<le> count (rating p)" and dbl: "is_double (count (rating p))"
    and inv: "cart_inv catalog (cart s)" and a: "addToCart s p = Inr s'"
  shows "cart_inv catalog (cart s')"
proof (cases rule: addToCart_cases [of p s])
  case new
  have "id' p \<notin> id' ` set (cart s)" using new(1) by (simp add: find_None_ids)
  moreover have "cart s' = cart s @ [product.extend p (cart_line.fields 1)]"
    using new(2) a by auto
  ultimately show ?thesis using inv p st
    by (auto simp: cart_inv_def cart_ok_def new_line)
next
  case (full l)
  then show ?thesis using inv a by simp
next
  case (inc l)
  have l: "l \<in> set (cart s)" "id' l = id' p" using find_Some_mem [OF inc(1)] by auto
  have c: "cart s' = map (\<lambda>item. if id' item = id' p
                                   then item\<lparr>quantity := js_add (quantity item) 1\<rparr>
                                   else item) (cart s)"
    using inc(3) a by auto
  have dc: "distinct (map id' (cart s))" using inv by (simp add: cart_inv_def)
  have ok: "cart_ok catalog (cart s)" using inv by (simp add: cart_inv_def)
  have "cart_ok catalog (cart s')"
    unfolding cart_ok_def
  proof
    fix i assume "i \<in> set (cart s')"
    then obtain j where j: "j \<in> set (cart s)"
      and i: "i = (if id' j = id' p then j\<lparr>quantity := js_add (quantity j) 1\<rparr> else j)"
      using c by auto
    have jok: "product.truncate j \<in> set catalog" "1 \<le> quantity j"
      "quantity j \<le> count (rating j)"
      using ok j by (auto simp: cart_ok_def)
    show "product.truncate i \<in> set catalog \<and> 1 \<le> quantity i \<and>
          quantity i \<le> count (rating i)"
    proof (cases "id' j = id' p")
      case False
      then show ?thesis using i jok by simp
    next
      case same: True
      have "j = l" using same_id_same_line [OF dc l(1) j] same l(2) by simp
      then have "quantity j < count (rating p)" using inc(2) by simp
      then have "1 \<le> js_add (quantity j) 1 \<and> js_add (quantity j) 1 \<le> count (rating p)"
        using js_add_ceiling [OF jok(2) _ dbl] by simp
      moreover have "rating j = rating p" using line_stock [OF d p jok(1) same] .
      ultimately show ?thesis using i same jok by (simp add: truncate_update)
    qed
  qed
  moreover have "distinct (map id' (cart s'))"
    using distinct_addToCart [OF dc a] .
  ultimately show ?thesis by (simp add: cart_inv_def)
qed

lemma inv_removeFromCart:
  "cart_inv catalog (cart s) \<Longrightarrow> cart_inv catalog (cart (removeFromCart s k))"
  by (auto simp: cart_inv_def cart_ok_def removeFromCart_def distinct_map_filter)

lemma inv_updateQuantity:
  assumes d: "distinct (map id' (products s))" and inv: "cart_inv (products s) (cart s)"
    and u: "updateQuantity s k n = Inr s'"
  shows "cart_inv (products s) (cart s')"
proof -
  obtain p where f: "find (\<lambda>p. id' p = k) (products s) = Some p"
    using u by (auto simp: updateQuantity_def split: option.splits)
  then have p: "p \<in> set (products s)" "id' p = k" using find_Some_mem [OF f] by auto
  consider (rm) "n \<le> 0" | (upd) "0 < n" "n \<le> count (rating p)"
    | (no) "0 < n" "count (rating p) < n"
    by linarith
  then show ?thesis
  proof cases
    case rm
    then have "s' = removeFromCart s k" using u f by (simp add: updateQuantity_def)
    then show ?thesis using inv by (simp add: inv_removeFromCart)
  next
    case no
    then have "s' = s" using u f by (simp add: updateQuantity_def)
    then show ?thesis using inv by simp
  next
    case upd
    then have s': "cart s' =
        map (\<lambda>item. if id' item = k then item\<lparr>quantity := n\<rparr> else item) (cart s)"
      using u f by (auto simp: updateQuantity_def)
    have ok: "cart_ok (products s) (cart s)" using inv by (simp add: cart_inv_def)
    have "cart_ok (products s) (cart s')"
      unfolding cart_ok_def
    proof
      fix i assume "i \<in> set (cart s')"
      then obtain j where j: "j \<in> set (cart s)"
        and i: "i = (if id' j = k then j\<lparr>quantity := n\<rparr> else j)"
        using s' by auto
      have jok: "product.truncate j \<in> set (products s)" "1 \<le> quantity j"
        "quantity j \<le> count (rating j)"
        using ok j by (auto simp: cart_ok_def)
      show "product.truncate i \<in> set (products s) \<and> 1 \<le> quantity i \<and>
            quantity i \<le> count (rating i)"
      proof (cases "id' j = k")
        case False
        then show ?thesis using i jok by simp
      next
        case same: True
        have "rating j = rating p" using line_stock [OF d p(1) jok(1)] same p(2) by simp
        then show ?thesis using i same jok upd by (simp add: truncate_update)
      qed
    qed
    moreover have "distinct (map id' (cart s'))"
      using inv by (simp add: s' id_update cart_inv_def)
    ultimately show ?thesis by (simp add: cart_inv_def)
  qed
qed

lemma updateQuantity_raises:
  "updateQuantity s k n = Inl TypeError \<longleftrightarrow> k \<notin> id' ` set (products s)"
proof (cases "find (\<lambda>p. id' p = k) (products s)")
  case None
  then show ?thesis using find_None_ids [of k "products s"] by (simp add: updateQuantity_def)
next
  case (Some p)
  then show ?thesis using find_Some_mem [OF Some] by (auto simp: updateQuantity_def Let_def)
qed

lemma inv_step:
  assumes c: "catalog_ok (products s)" and ad: "addable (products s) a"
    and inv: "cart_inv (products s) (cart s)" and st: "step s a = Inr s'"
  shows "cart_inv (products s) (cart s')"
proof (cases a)
  case (AddToCart p)
  have d: "distinct (map id' (products s))" using c by (simp add: catalog_ok_def)
  have p: "p \<in> set (products s)" using ad AddToCart by simp
  have "count (rating p) \<noteq> 0" using ad AddToCart by (simp add: isOutOfStock_def)
  moreover have "0 \<le> count (rating p)" "is_double (count (rating p))"
    using c p by (auto simp: catalog_ok_def)
  ultimately have "1 \<le> count (rating p)" "is_double (count (rating p))" by simp_all
  then show ?thesis
    using inv_addToCart [OF d p _ _ inv, of s'] st AddToCart by simp
next
  case (RemoveFromCart k)
  then show ?thesis using inv st inv_removeFromCart [of "products s" s k] by auto
next
  case (UpdateQuantity k n)
  have d: "distinct (map id' (products s))" using c by (simp add: catalog_ok_def)
  show ?thesis using inv_updateQuantity [OF d inv, of k n s'] st UpdateQuantity by simp
qed

lemma inv_handle:
  assumes "catalog_ok (products s)" "addable (products s) a" "cart_inv (products s) (cart s)"
  shows "cart_inv (products s) (cart (snd (handle s a)))"
proof (cases "step s a")
  case (Inl e)
  then show ?thesis using assms(3) by (simp add: handle_def)
next
  case (Inr s')
  then show ?thesis using inv_step [OF assms Inr] by (simp add: handle_def)
qed

lemma inv_run:
  assumes "catalog_ok (products s)" "\<forall>a \<in> set as. addable (products s) a"
    "cart_inv (products s) (cart s)"
  shows "cart_inv (products s) (cart (run s as))"
  using assms
proof (induction as arbitrary: s)
  case Nil
  then show ?case by simp
next
  case (Cons a as)
  let ?s1 = "snd (handle s a)"
  have ps: "products ?s1 = products s" by (rule products_handle)
  have "cart_inv (products s) (cart ?s1)"
    using inv_handle [of s a] Cons.prems by simp
  then have "cart_inv (products ?s1) (cart (run ?s1 as))"
    using Cons.IH [of ?s1] Cons.prems ps by simp
  then show ?case using ps by simp
qed

text \<open>
  C1, as the code has it. The catalog has unique ids and stock counts that are integers,
  not negative, which a JavaScript number holds, and \<^verbatim>\<open>addToCart\<close> is called as the
  page calls it: on products of the catalog that are not out of stock. Then, from the
  empty cart, after any sequence of \<^verbatim>\<open>addToCart\<close>, \<^verbatim>\<open>removeFromCart\<close> and
  \<^verbatim>\<open>updateQuantity\<close> calls, with any id and any new quantity, the ones that raise
  among them, every line of the cart is the copy of a catalog product and has a quantity
  from 1 to the stock count of that product.
\<close>

theorem stock_ceiling:
  assumes "catalog_ok catalog" and "\<forall>a \<in> set as. addable catalog a"
  shows "cart_ok catalog (cart (run (init catalog) as))"
proof -
  have "cart_inv (products (init catalog)) (cart (init catalog))"
    by (simp add: init_def cart_inv_def cart_ok_def)
  moreover have "products (init catalog) = catalog" by (simp add: init_def)
  ultimately have "cart_inv catalog (cart (run (init catalog) as))"
    using inv_run [of "init catalog" as] assms by simp
  then show ?thesis by (simp add: cart_inv_def)
qed

text \<open>
  The scenario of the specification, with a call that raises in the middle: the third
  \<^verbatim>\<open>addToCart\<close> of a product with two in stock is rejected, and so is the update to
  five.
\<close>

theorem stock_ceiling_witness:
  "run (init [redShirt, soldOut])
     [AddToCart redShirt, AddToCart redShirt, UpdateQuantity 9 1, AddToCart redShirt,
      UpdateQuantity 1 5] =
     (init [redShirt, soldOut])\<lparr>cart := [product.extend redShirt (cart_line.fields 2)]\<rparr> \<and>
   cart_ok [redShirt, soldOut] [product.extend redShirt (cart_line.fields 2)]"
proof -
  let ?as = "[AddToCart redShirt, AddToCart redShirt, UpdateQuantity 9 1, AddToCart redShirt,
      UpdateQuantity 1 5]"
  have r: "run (init [redShirt, soldOut]) ?as =
     (init [redShirt, soldOut])\<lparr>cart := [product.extend redShirt (cart_line.fields 2)]\<rparr>"
    by code_simp
  have i: "is_double 2" "is_double 0" by code_simp+
  have c: "catalog_ok [redShirt, soldOut]"
    using i by (simp add: catalog_ok_def redShirt_def soldOut_def)
  have a: "\<forall>a \<in> set ?as. addable [redShirt, soldOut] a"
    by (simp add: isOutOfStock_def redShirt_def)
  from stock_ceiling [OF c a] r show ?thesis by simp
qed

text \<open>
  C1, as the claim states it, fails: called on a product that is out of stock,
  \<^verbatim>\<open>addToCart\<close> puts a line of quantity 1 into the empty cart, above the stock count 0.
\<close>

theorem stock_ceiling_counterexample:
  "run (init [soldOut]) [AddToCart soldOut] =
     (init [soldOut])\<lparr>cart := [product.extend soldOut (cart_line.fields 1)]\<rparr> \<and>
   quantity (product.extend soldOut (cart_line.fields 1)) = 1 \<and>
   count (rating (product.extend soldOut (cart_line.fields 1))) = 0 \<and>
   \<not> cart_ok [soldOut] [product.extend soldOut (cart_line.fields 1)]"
  by (simp add: handle_def addToCart_def init_def cart_ok_def new_line soldOut_def)

subsection \<open>The contracts of the operations\<close>

text \<open>
  C2, as the code has it. When no line of the cart has the product's id,
  \<^verbatim>\<open>addToCart\<close> appends a line of quantity 1 that copies the product, whatever the
  stock count is. When the cart has such a line, and that line's quantity plus 1 does
  not exceed the stock count of the product passed, the cart keeps its length, the
  quantity of a line with that id becomes the sum of doubles of the quantity and 1,
  which is the quantity plus exactly 1 when the quantity is below \<open>2 ^ 53\<close> in
  magnitude, and every other line and the rest of the state are as they were; when that
  line's quantity plus 1 exceeds the stock count, the state is left as it was.
\<close>

theorem addToCart_contract:
  "(id' p \<notin> id' ` set (cart s) \<longrightarrow>
      addToCart s p = Inr (s\<lparr>cart := cart s @ [product.extend p (cart_line.fields 1)]\<rparr>)) \<and>
   (\<forall>l. find (\<lambda>item. id' item = id' p) (cart s) = Some l \<and>
         quantity l + 1 \<le> count (rating p) \<longrightarrow>
      (\<exists>s'. addToCart s p = Inr s' \<and> s' = s\<lparr>cart := cart s'\<rparr> \<and>
         length (cart s') = length (cart s) \<and>
         (\<forall>i < length (cart s).
            (id' (cart s ! i) = id' p \<longrightarrow>
               cart s' ! i = (cart s ! i)\<lparr>quantity := js_add (quantity (cart s ! i)) 1\<rparr>) \<and>
            (id' (cart s ! i) = id' p \<and> \<bar>quantity (cart s ! i)\<bar> < 2 ^ 53 \<longrightarrow>
               cart s' ! i = (cart s ! i)\<lparr>quantity := quantity (cart s ! i) + 1\<rparr>) \<and>
            (id' (cart s ! i) \<noteq> id' p \<longrightarrow> cart s' ! i = cart s ! i)))) \<and>
   (\<forall>l. find (\<lambda>item. id' item = id' p) (cart s) = Some l \<and>
         \<not> quantity l + 1 \<le> count (rating p) \<longrightarrow>
      addToCart s p = Inr s)"
proof (intro conjI allI impI)
  assume "id' p \<notin> id' ` set (cart s)"
  then have "find (\<lambda>item. id' item = id' p) (cart s) = None"
    using find_None_ids [of "id' p" "cart s"] by simp
  then show "addToCart s p =
      Inr (s\<lparr>cart := cart s @ [product.extend p (cart_line.fields 1)]\<rparr>)"
    by (rule addToCart_new)
next
  fix l
  assume "find (\<lambda>item. id' item = id' p) (cart s) = Some l \<and>
      \<not> quantity l + 1 \<le> count (rating p)"
  then show "addToCart s p = Inr s" using addToCart_full [of p s l] by simp
next
  fix l
  let ?c = "map (\<lambda>item. if id' item = id' p
                         then item\<lparr>quantity := js_add (quantity item) 1\<rparr> else item) (cart s)"
  assume "find (\<lambda>item. id' item = id' p) (cart s) = Some l \<and>
      quantity l + 1 \<le> count (rating p)"
  then have a: "addToCart s p = Inr (s\<lparr>cart := ?c\<rparr>)"
    using addToCart_inc [of p s l] by simp
  have n: "\<forall>i < length (cart s).
      ?c ! i = (if id' (cart s ! i) = id' p
                then (cart s ! i)\<lparr>quantity := js_add (quantity (cart s ! i)) 1\<rparr>
                else cart s ! i)"
    by simp
  have "\<forall>i < length (cart s).
      (id' (cart s ! i) = id' p \<longrightarrow>
         ?c ! i = (cart s ! i)\<lparr>quantity := js_add (quantity (cart s ! i)) 1\<rparr>) \<and>
      (id' (cart s ! i) = id' p \<and> \<bar>quantity (cart s ! i)\<bar> < 2 ^ 53 \<longrightarrow>
         ?c ! i = (cart s ! i)\<lparr>quantity := quantity (cart s ! i) + 1\<rparr>) \<and>
      (id' (cart s ! i) \<noteq> id' p \<longrightarrow> ?c ! i = cart s ! i)"
    using n by (simp add: js_add_exact)
  then show "\<exists>s'. addToCart s p = Inr s' \<and> s' = s\<lparr>cart := cart s'\<rparr> \<and>
         length (cart s') = length (cart s) \<and>
         (\<forall>i < length (cart s).
            (id' (cart s ! i) = id' p \<longrightarrow>
               cart s' ! i = (cart s ! i)\<lparr>quantity := js_add (quantity (cart s ! i)) 1\<rparr>) \<and>
            (id' (cart s ! i) = id' p \<and> \<bar>quantity (cart s ! i)\<bar> < 2 ^ 53 \<longrightarrow>
               cart s' ! i = (cart s ! i)\<lparr>quantity := quantity (cart s ! i) + 1\<rparr>) \<and>
            (id' (cart s ! i) \<noteq> id' p \<longrightarrow> cart s' ! i = cart s ! i))"
    using a by simp
qed

theorem addToCart_contract_witness:
  "addToCart (init [redShirt]) redShirt =
     Inr ((init [redShirt])\<lparr>cart := [product.extend redShirt (cart_line.fields 1)]\<rparr>) \<and>
   addToCart ((init [redShirt])\<lparr>cart := [product.extend redShirt (cart_line.fields 1)]\<rparr>)
       redShirt =
     Inr ((init [redShirt])\<lparr>cart := [product.extend redShirt (cart_line.fields 2)]\<rparr>) \<and>
   addToCart ((init [redShirt])\<lparr>cart := [product.extend redShirt (cart_line.fields 2)]\<rparr>)
       redShirt =
     Inr ((init [redShirt])\<lparr>cart := [product.extend redShirt (cart_line.fields 2)]\<rparr>)"
proof -
  let ?l1 = "product.extend redShirt (cart_line.fields 1)"
  let ?l2 = "product.extend redShirt (cart_line.fields 2)"
  let ?s1 = "(init [redShirt])\<lparr>cart := [?l1]\<rparr>"
  let ?s2 = "(init [redShirt])\<lparr>cart := [?l2]\<rparr>"
  have f0: "id' redShirt \<notin> id' ` set (cart (init [redShirt]))"
    by (simp add: init_def)
  have f1: "find (\<lambda>item. id' item = id' redShirt) (cart ?s1) = Some ?l1 \<and>
      quantity ?l1 + 1 \<le> count (rating redShirt)"
    by (simp add: new_line redShirt_def)
  have f2: "find (\<lambda>item. id' item = id' redShirt) (cart ?s2) = Some ?l2 \<and>
      \<not> quantity ?l2 + 1 \<le> count (rating redShirt)"
    by (simp add: new_line redShirt_def)
  from addToCart_contract [of redShirt "init [redShirt]"] f0
  have a: "addToCart (init [redShirt]) redShirt = Inr ?s1"
    by (simp add: init_def)
  from addToCart_contract [of redShirt ?s1] f1
  obtain s' where s': "addToCart ?s1 redShirt = Inr s'" "s' = ?s1\<lparr>cart := cart s'\<rparr>"
    "length (cart s') = length (cart ?s1)"
    "\<forall>i < length (cart ?s1).
       id' (cart ?s1 ! i) = id' redShirt \<and> \<bar>quantity (cart ?s1 ! i)\<bar> < 2 ^ 53 \<longrightarrow>
       cart s' ! i = (cart ?s1 ! i)\<lparr>quantity := quantity (cart ?s1 ! i) + 1\<rparr>"
    by blast
  have "cart s' ! 0 = ?l2"
    using s'(4) by (simp add: new_line new_line_update)
  moreover have "length (cart s') = 1" using s'(3) by simp
  ultimately have "cart s' = [?l2]"
    by (cases "cart s'") simp_all
  then have b: "addToCart ?s1 redShirt = Inr ?s2"
    using s'(1,2) by simp
  from addToCart_contract [of redShirt ?s2] f2
  have c: "addToCart ?s2 redShirt = Inr ?s2"
    by blast
  from a b c show ?thesis by simp
qed

text \<open>
  C2, as the claim states it, fails twice. For a product whose stock count is 0 and an
  empty cart, \<^verbatim>\<open>addToCart\<close> is not a no-op, it creates the line. And for a line of
  quantity \<open>2 ^ 53\<close> and a stock count two above, the test passes and the sum of
  doubles \<open>2 ^ 53 + 1\<close> is \<open>2 ^ 53\<close> again: the quantity does not grow by 1.
\<close>

theorem addToCart_contract_counterexample:
  "isOutOfStock soldOut \<and>
   cart (init [soldOut]) = [] \<and>
   addToCart (init [soldOut]) soldOut =
     Inr ((init [soldOut])\<lparr>cart := [product.extend soldOut (cart_line.fields 1)]\<rparr>) \<and>
   2 ^ 53 + 1 \<le> count (rating sand) \<and>
   addToCart ((init [sand])\<lparr>cart := [product.extend sand (cart_line.fields (2 ^ 53))]\<rparr>) sand =
     Inr ((init [sand])\<lparr>cart := [product.extend sand (cart_line.fields (2 ^ 53))]\<rparr>)"
proof -
  have "js_add (2 ^ 53) 1 = 2 ^ 53" by code_simp
  then have "addToCart ((init [sand])\<lparr>cart := [product.extend sand (cart_line.fields (2 ^ 53))]\<rparr>)
       sand =
     Inr ((init [sand])\<lparr>cart := [product.extend sand (cart_line.fields (2 ^ 53))]\<rparr>)"
    by (simp add: addToCart_def get_prop_def init_def new_line new_line_update sand_def)
  moreover have "addToCart (init [soldOut]) soldOut =
     Inr ((init [soldOut])\<lparr>cart := [product.extend soldOut (cart_line.fields 1)]\<rparr>)"
    by (simp add: addToCart_def init_def)
  ultimately show ?thesis
    by (simp add: isOutOfStock_def soldOut_def sand_def init_def)
qed

lemma js_error_only: "(e::js_error) = TypeError"
  by (cases e) simp

lemma handle_raises:
  "fst (handle s a) \<noteq> None \<longleftrightarrow>
     (\<exists>k n. a = UpdateQuantity k n \<and> k \<notin> id' ` set (products s))"
proof (cases a)
  case (AddToCart p)
  then show ?thesis using addToCart_returns [of s p] by (auto simp: handle_def)
next
  case (RemoveFromCart k)
  then show ?thesis by (simp add: handle_def)
next
  case (UpdateQuantity k n)
  show ?thesis
  proof (cases "updateQuantity s k n")
    case (Inl e)
    then have "updateQuantity s k n = Inl TypeError" using js_error_only [of e] by simp
    then show ?thesis using UpdateQuantity updateQuantity_raises [of s k n]
      by (simp add: handle_def)
  next
    case (Inr s')
    then have "updateQuantity s k n \<noteq> Inl TypeError" by simp
    then show ?thesis using UpdateQuantity Inr updateQuantity_raises [of s k n]
      by (simp add: handle_def)
  qed
qed

text \<open>
  C3, as the code has it. \<^verbatim>\<open>addToCart\<close> always returns: its one read of a value that
  may be \<^verbatim>\<open>undefined\<close> is under the test that it is not. \<^verbatim>\<open>updateQuantity\<close>
  returns for the id of a catalog product, whatever the new quantity is. For an id that
  no product of the catalog has it raises a \<^verbatim>\<open>TypeError\<close>; the state of the
  component, the cart in it, is then what it was before the call, and the session goes
  on from it. No other cart call raises, \<^verbatim>\<open>removeFromCart\<close> included.
\<close>

theorem cart_calls_raise_iff:
  "(\<exists>s'. addToCart s p = Inr s') \<and>
   (k \<in> id' ` set (products s) \<longrightarrow> (\<exists>s'. updateQuantity s k n = Inr s')) \<and>
   (k \<notin> id' ` set (products s) \<longrightarrow>
      updateQuantity s k n = Inl TypeError \<and>
      handle s (UpdateQuantity k n) = (Some TypeError, s) \<and>
      run s (UpdateQuantity k n # as) = run s as) \<and>
   (fst (handle s a) \<noteq> None \<longleftrightarrow>
      (\<exists>k n. a = UpdateQuantity k n \<and> k \<notin> id' ` set (products s)))"
proof -
  have "k \<in> id' ` set (products s) \<Longrightarrow> \<exists>s'. updateQuantity s k n = Inr s'"
    using updateQuantity_raises [of s k n] js_error_only
    by (cases "updateQuantity s k n") auto
  moreover have "k \<notin> id' ` set (products s) \<Longrightarrow>
      updateQuantity s k n = Inl TypeError \<and>
      handle s (UpdateQuantity k n) = (Some TypeError, s) \<and>
      run s (UpdateQuantity k n # as) = run s as"
    using updateQuantity_raises [of s k n] by (simp add: handle_def)
  ultimately show ?thesis
    using addToCart_returns [of s p] handle_raises [of s a] by blast
qed

theorem cart_calls_raise_iff_witness:
  "handle ((init [redShirt])\<lparr>cart := [product.extend redShirt (cart_line.fields 1)]\<rparr>)
     (UpdateQuantity 7 1) =
     (Some TypeError,
      (init [redShirt])\<lparr>cart := [product.extend redShirt (cart_line.fields 1)]\<rparr>) \<and>
   run ((init [redShirt])\<lparr>cart := [product.extend redShirt (cart_line.fields 1)]\<rparr>)
     [UpdateQuantity 7 1, AddToCart redShirt] =
     (init [redShirt])\<lparr>cart := [product.extend redShirt (cart_line.fields 2)]\<rparr> \<and>
   \<not> isl (updateQuantity
     ((init [redShirt])\<lparr>cart := [product.extend redShirt (cart_line.fields 1)]\<rparr>) 1 2)"
proof -
  let ?s = "(init [redShirt])\<lparr>cart := [product.extend redShirt (cart_line.fields 1)]\<rparr>"
  have m: "7 \<notin> id' ` set (products ?s)" "1 \<in> id' ` set (products ?s)"
    by (simp_all add: init_def redShirt_def)
  have r: "run ?s [AddToCart redShirt] =
      (init [redShirt])\<lparr>cart := [product.extend redShirt (cart_line.fields 2)]\<rparr>"
    by code_simp
  note t1 = cart_calls_raise_iff [of ?s redShirt 7 1 "[AddToCart redShirt]"]
  note t2 = cart_calls_raise_iff [of ?s redShirt 1 2]
  have a: "handle ?s (UpdateQuantity 7 1) = (Some TypeError, ?s)"
    "run ?s [UpdateQuantity 7 1, AddToCart redShirt] = run ?s [AddToCart redShirt]"
    using t1 m(1) by blast+
  have "\<exists>s'. updateQuantity ?s 1 2 = Inr s'" using t2 m(2) by blast
  then have "\<not> isl (updateQuantity ?s 1 2)" by auto
  then show ?thesis using a r by simp
qed

text \<open>
  C3, as the claim states it, fails: \<^verbatim>\<open>updateQuantity\<close> with an id that is not in
  the catalog is no silent no-op, it raises a \<^verbatim>\<open>TypeError\<close>.
\<close>

theorem updateQuantity_missing_counterexample:
  "updateQuantity (init [redShirt]) 7 1 = Inl TypeError"
  by (simp add: updateQuantity_def init_def redShirt_def)

text \<open>
  C4. Let the catalog lookup of \<^verbatim>\<open>updateQuantity\<close> find the product \<open>p\<close> for the
  id. A new quantity of 0 or less makes the call \<^verbatim>\<open>removeFromCart\<close> of the id. A new
  quantity from 1 to the stock count of \<open>p\<close>, the catalog's product, becomes the
  quantity of every line with the id, and nothing else changes. A new quantity above
  the stock count leaves the state as it was.
\<close>

theorem updateQuantity_contract:
  assumes "find (\<lambda>p. id' p = k) (products s) = Some p"
  shows "(n \<le> 0 \<longrightarrow> updateQuantity s k n = Inr (removeFromCart s k)) \<and>
         (0 < n \<and> n \<le> count (rating p) \<longrightarrow>
            updateQuantity s k n =
              Inr (s\<lparr>cart := map (\<lambda>item. if id' item = k then item\<lparr>quantity := n\<rparr> else item)
                                 (cart s)\<rparr>) \<and>
            (\<forall>s'. updateQuantity s k n = Inr s' \<longrightarrow>
               length (cart s') = length (cart s) \<and>
               (\<forall>i < length (cart s).
                  (id' (cart s ! i) = k \<longrightarrow> cart s' ! i = (cart s ! i)\<lparr>quantity := n\<rparr>) \<and>
                  (id' (cart s ! i) \<noteq> k \<longrightarrow> cart s' ! i = cart s ! i)))) \<and>
         (0 < n \<and> count (rating p) < n \<longrightarrow> updateQuantity s k n = Inr s)"
  using assms by (auto simp: updateQuantity_def)

theorem updateQuantity_contract_witness:
  "updateQuantity ((init [redShirt])\<lparr>cart := [product.extend redShirt (cart_line.fields 1)]\<rparr>) 1 0 =
     Inr (init [redShirt]) \<and>
   updateQuantity ((init [redShirt])\<lparr>cart := [product.extend redShirt (cart_line.fields 1)]\<rparr>) 1 2 =
     Inr ((init [redShirt])\<lparr>cart := [product.extend redShirt (cart_line.fields 2)]\<rparr>) \<and>
   updateQuantity ((init [redShirt])\<lparr>cart := [product.extend redShirt (cart_line.fields 1)]\<rparr>) 1 3 =
     Inr ((init [redShirt])\<lparr>cart := [product.extend redShirt (cart_line.fields 1)]\<rparr>)"
proof -
  let ?s = "(init [redShirt])\<lparr>cart := [product.extend redShirt (cart_line.fields 1)]\<rparr>"
  have f: "find (\<lambda>p. id' p = 1) (products ?s) = Some redShirt"
    by (simp add: init_def redShirt_def)
  have c: "count (rating redShirt) = 2" by (simp add: redShirt_def)
  have r: "removeFromCart ?s 1 = init [redShirt]"
    by (simp add: removeFromCart_def init_def new_line redShirt_def)
  have i: "id' (product.extend redShirt (cart_line.fields 1)) = 1"
    by (simp add: new_line redShirt_def)
  from updateQuantity_contract [OF f, of 0] r
  have a: "updateQuantity ?s 1 0 = Inr (init [redShirt])" by simp
  from updateQuantity_contract [OF f, of 2] c
  have b: "updateQuantity ?s 1 2 =
      Inr ((init [redShirt])\<lparr>cart := [product.extend redShirt (cart_line.fields 2)]\<rparr>)"
    by (simp add: new_line_update i)
  from updateQuantity_contract [OF f, of 3] c
  have d: "updateQuantity ?s 1 3 = Inr ?s" by simp
  from a b d show ?thesis by simp
qed

end
